theory Spec2Isabelle
  imports Main
begin

section \<open>The relational store\<close>

text \<open>
  The handlers of \<^verbatim>\<open>api_li3ds/apis/platform.py\<close> read and write five tables of the
  schema \<^verbatim>\<open>li3ds\<close>. The schema is not part of the sources, so a table is a list of
  rows holding the columns the handlers name; integer columns are Python's unbounded
  integers, and every column is taken as non-null. The order of a list is the order in
  which a scan meets the rows.

  Modelled from the spec: \<^verbatim>\<open>api_li3ds.database\<close> is not part of the sources. Its
  helpers \<^verbatim>\<open>Database.query\<close>, \<^verbatim>\<open>query_asjson\<close> and \<^verbatim>\<open>rowcount\<close> run the SQL
  statement they are given, with the parameters bound, against this store (section 6
  of the specification); the statements themselves are in the sources and are
  translated below.
\<close>

record platform =
  p_id :: int
  p_name :: string
  p_description :: string
  p_start_time :: "string option"
  p_end_time :: "string option"

record platform_config =
  pf_id :: int
  pf_name :: string
  pf_owner :: string
  pf_platform :: int
  pf_transfo_trees :: "int list"

record transfo_tree =
  tt_id :: int
  tt_transfos :: "int list"
  tt_sensor_connections :: bool

record transfo =
  t_id :: int
  t_source :: int
  t_target :: int
  t_transfo_type :: int

record referential =
  r_id :: int
  r_name :: string
  r_root :: bool

record database =
  platform_tbl :: "platform list"
  platform_config_tbl :: "platform_config list"
  transfo_tree_tbl :: "transfo_tree list"
  transfo_tbl :: "transfo list"
  referential_tbl :: "referential list"

text \<open>
  What a handler can raise: \<^verbatim>\<open>nspfm.abort(code, message)\<close>, and a failure of the
  rendering backend inside \<^verbatim>\<open>dot.pipe\<close>.
\<close>

datatype error = Abort nat string | BackendFault

section \<open>One platform\<close>

text \<open>
  Modelled from the spec: \<^verbatim>\<open>Database.query_asjson\<close> runs the statement and returns
  the rows of its result, \<^verbatim>\<open>Database.rowcount\<close> runs it and returns the number of
  rows it touched. Here: \<^verbatim>\<open>select * from li3ds.platform where id=%s\<close>.
\<close>

definition select_platform :: "database \<Rightarrow> int \<Rightarrow> platform list" where
  "select_platform db pid = filter (\<lambda>p. p_id p = pid) (platform_tbl db)"

text \<open>\<^verbatim>\<open>delete from li3ds.platform where id=%s\<close>: the store afterwards and the row count.\<close>

definition delete_platform :: "database \<Rightarrow> int \<Rightarrow> database \<times> nat" where
  "delete_platform db pid =
     (db\<lparr>platform_tbl := filter (\<lambda>p. p_id p \<noteq> pid) (platform_tbl db)\<rparr>,
      length (filter (\<lambda>p. p_id p = pid) (platform_tbl db)))"

text \<open>
  \<^verbatim>\<open>OnePlatform.get\<close>: an empty result is falsy and aborts with 410. The rows are
  returned as they are; marshalling them is the work of the web layer.
\<close>

definition OnePlatform_get :: "database \<Rightarrow> int \<Rightarrow> error + platform list" where
  "OnePlatform_get db pid =
     (let res = select_platform db pid
      in if res = [] then Inl (Abort 410 ''Platform not found'') else Inr res)"

text \<open>
  \<^verbatim>\<open>OnePlatform.delete\<close>: a row count of zero is falsy and aborts with 410; otherwise
  the body is the empty string and the status 204. The store is returned as the
  statement left it.
\<close>

definition OnePlatform_delete :: "database \<Rightarrow> int \<Rightarrow> database \<times> (error + string \<times> nat)" where
  "OnePlatform_delete db pid =
     (case delete_platform db pid of
        (db', res) \<Rightarrow>
          (db', if res = 0 then Inl (Abort 410 ''Platform not found'') else Inr ([], 204)))"

section \<open>The preview of a platform configuration\<close>

subsection \<open>Python's \<^verbatim>\<open>str\<close> on integers\<close>

definition digit_char :: "nat \<Rightarrow> char" where
  "digit_char d = ''0123456789'' ! d"

fun str_nat :: "nat \<Rightarrow> string" where
  "str_nat n = (if n < 10 then [digit_char n] else str_nat (n div 10) @ [digit_char (n mod 10)])"

declare str_nat.simps [simp del]

definition str :: "int \<Rightarrow> string" where
  "str i = (if i < 0 then CHR ''-'' # str_nat (nat (- i)) else str_nat (nat i))"

subsection \<open>The two queries\<close>

text \<open>A row of the first query: \<^verbatim>\<open>t.id, t.source, t.target, transfo_type, p.sc\<close>.\<close>

record edge_row =
  e_id :: int
  e_source :: int
  e_target :: int
  e_transfo_type :: int
  e_sc :: bool

text \<open>A row of the second query: \<^verbatim>\<open>id, name, root\<close>.\<close>

record node_row =
  n_id :: int
  n_name :: string
  n_root :: bool

text \<open>
  The common table expression \<^verbatim>\<open>tmp\<close>: the configurations with the given id, joined
  with the trees whose id is in \<^verbatim>\<open>pf.transfo_trees\<close>; \<^verbatim>\<open>unnest\<close> gives one row
  \<^verbatim>\<open>(tid, sc)\<close> for each element of \<^verbatim>\<open>tt.transfos\<close>, with the tree's
  \<^verbatim>\<open>sensor_connections\<close> as \<^verbatim>\<open>sc\<close>. The statement does not qualify that column;
  a configuration has the columns of \<^verbatim>\<open>platform_config\<close> in the sources (id, name,
  owner, platform, transfo_trees), so it is the tree's.
\<close>

definition tmp :: "database \<Rightarrow> int \<Rightarrow> (int \<times> bool) list" where
  "tmp db cid =
     [(tid, tt_sensor_connections tt).
        pf \<leftarrow> platform_config_tbl db, pf_id pf = cid,
        tt \<leftarrow> transfo_tree_tbl db, tt_id tt \<in> set (pf_transfo_trees pf),
        tid \<leftarrow> tt_transfos tt]"

text \<open>
  The first query: \<^verbatim>\<open>tmp\<close> joined with \<^verbatim>\<open>li3ds.transfo\<close> on \<^verbatim>\<open>t.id = p.tid\<close>;
  \<^verbatim>\<open>select distinct\<close> keeps one copy of each row of five columns.
\<close>

definition query_edges :: "database \<Rightarrow> int \<Rightarrow> edge_row list" where
  "query_edges db cid =
     remdups
       [\<lparr>e_id = t_id t, e_source = t_source t, e_target = t_target t,
          e_transfo_type = t_transfo_type t, e_sc = snd p\<rparr>.
          p \<leftarrow> tmp db cid, t \<leftarrow> transfo_tbl db, t_id t = fst p]"

text \<open>
  The loop over \<^verbatim>\<open>edges\<close> that fills the Python set \<^verbatim>\<open>urefs\<close>.
\<close>

fun collect_urefs :: "edge_row list \<Rightarrow> int set \<Rightarrow> int set" where
  "collect_urefs [] urefs = urefs"
| "collect_urefs (edge # edges) urefs =
     collect_urefs edges (insert (e_target edge) (insert (e_source edge) urefs))"

text \<open>
  The second query: \<^verbatim>\<open>select distinct id, name, root from li3ds.referential where
  ARRAY[id] <@ %s\<close> with \<^verbatim>\<open>list(urefs)\<close> as the array. The containment holds exactly
  when \<^verbatim>\<open>id\<close> is an element of the array, so the set stands for the list.
\<close>

definition query_nodes :: "database \<Rightarrow> int set \<Rightarrow> node_row list" where
  "query_nodes db urefs =
     remdups
       [\<lparr>n_id = r_id r, n_name = r_name r, n_root = r_root r\<rparr>.
          r \<leftarrow> referential_tbl db, r_id r \<in> urefs]"

subsection \<open>The graph description\<close>

text \<open>
  \<^verbatim>\<open>graphviz.Digraph\<close> is a library: the object is its comment, the statements of
  its body in the order they were added, its graph attributes and its engine. A node
  statement is a name, a label and the keyword attributes; an edge statement is the
  names of its tail and head, a label and the keyword attributes. A statement with no
  \<^verbatim>\<open>color\<close> attribute is drawn in the default color.
\<close>

datatype stmt =
  NodeStmt string string "(string \<times> string) list"
| EdgeStmt string string string "(string \<times> string) list"

record digraph =
  comment :: string
  body :: "stmt list"
  graph_attr :: "(string \<times> string) list"
  engine :: string

definition Digraph :: "string \<Rightarrow> digraph" where
  "Digraph c = \<lparr>comment = c, body = [], graph_attr = [], engine = ''dot''\<rparr>"

definition dot_node :: "digraph \<Rightarrow> string \<Rightarrow> string \<Rightarrow> (string \<times> string) list \<Rightarrow> digraph" where
  "dot_node dot name label attrs = dot\<lparr>body := body dot @ [NodeStmt name label attrs]\<rparr>"

definition dot_edge :: "digraph \<Rightarrow> string \<Rightarrow> string \<Rightarrow> string \<Rightarrow> (string \<times> string) list \<Rightarrow> digraph" where
  "dot_edge dot tail_name head_name label attrs =
     dot\<lparr>body := body dot @ [EdgeStmt tail_name head_name label attrs]\<rparr>"

text \<open>\<^verbatim>\<open>'{}\n({})'.format(node.name, node.id)\<close>\<close>

definition node_label :: "node_row \<Rightarrow> string" where
  "node_label node = n_name node @ [CHR 0x0A] @ ''('' @ str (n_id node) @ '')''"

text \<open>The loop over \<^verbatim>\<open>nodes\<close>; \<^verbatim>\<open>continue\<close> ends the iteration of a root node.\<close>

fun add_nodes :: "node_row list \<Rightarrow> digraph \<Rightarrow> digraph" where
  "add_nodes [] dot = dot"
| "add_nodes (node # nodes) dot =
     (if n_root node
      then add_nodes nodes (dot_node dot (str (n_id node)) (node_label node) [(''color'', ''red'')])
      else add_nodes nodes (dot_node dot (str (n_id node)) (node_label node) []))"

text \<open>The loop over \<^verbatim>\<open>edges\<close>; \<^verbatim>\<open>continue\<close> ends the iteration of a sensor connection.\<close>

fun add_edges :: "edge_row list \<Rightarrow> digraph \<Rightarrow> digraph" where
  "add_edges [] dot = dot"
| "add_edges (edge # edges) dot =
     (if e_sc edge
      then add_edges edges
             (dot_edge dot (str (e_source edge)) (str (e_target edge)) (str (e_id edge))
                [(''color'', ''blue'')])
      else add_edges edges
             (dot_edge dot (str (e_source edge)) (str (e_target edge)) (str (e_id edge)) []))"

subsection \<open>The handler\<close>

record response =
  data :: string
  status :: nat
  content_type :: string
  mimetype :: string

text \<open>\<^verbatim>\<open>flask.make_response\<close> on a byte string: status 200 and Flask's default type.\<close>

definition make_response :: "string \<Rightarrow> response" where
  "make_response d =
     \<lparr>data = d, status = 200, content_type = ''text/html; charset=utf-8'',
      mimetype = ''text/html''\<rparr>"

text \<open>The nodes and edges that \<^verbatim>\<open>PlatformConfigPreview.get\<close> assembles.\<close>

definition preview_edges :: "database \<Rightarrow> int \<Rightarrow> edge_row list" where
  "preview_edges db cid = query_edges db cid"

definition preview_urefs :: "database \<Rightarrow> int \<Rightarrow> int set" where
  "preview_urefs db cid = collect_urefs (preview_edges db cid) {}"

definition preview_nodes :: "database \<Rightarrow> int \<Rightarrow> node_row list" where
  "preview_nodes db cid = query_nodes db (preview_urefs db cid)"

text \<open>The graph description as it stands when \<^verbatim>\<open>dot.pipe\<close> is called.\<close>

definition preview_dot :: "database \<Rightarrow> int \<Rightarrow> digraph" where
  "preview_dot db cid =
     (let edges = preview_edges db cid;
          nodes = preview_nodes db cid;
          dot = Digraph ''Transformations'';
          dot = add_nodes nodes dot;
          dot = add_edges edges dot
      in dot\<lparr>graph_attr := [(''overlap'', ''scalexy'')], engine := ''dot''\<rparr>)"

text \<open>
  \<^verbatim>\<open>PlatformConfigPreview.get\<close>. The rendering backend is the parameter \<open>pipe\<close>:
  given the graph description and the format it returns the image bytes, or nothing
  when the backend fails, which the handler lets through.
\<close>

definition PlatformConfigPreview_get ::
  "database \<Rightarrow> (digraph \<Rightarrow> string \<Rightarrow> string option) \<Rightarrow> int \<Rightarrow> error + response" where
  "PlatformConfigPreview_get db pipe cid =
     (case pipe (preview_dot db cid) ''png'' of
        None \<Rightarrow> Inl BackendFault
      | Some d \<Rightarrow>
          Inr ((make_response d)\<lparr>content_type := ''image/png'', mimetype := ''image/png''\<rparr>))"

subsection \<open>Notions used to state the properties\<close>

text \<open>
  The trees of a configuration: the rows of \<^verbatim>\<open>li3ds.transfo_tree\<close> that the join of
  \<^verbatim>\<open>tmp\<close> pairs with a configuration of the given id.
\<close>

definition config_trees :: "database \<Rightarrow> int \<Rightarrow> transfo_tree list" where
  "config_trees db cid =
     [tt. pf \<leftarrow> platform_config_tbl db, pf_id pf = cid,
          tt \<leftarrow> transfo_tree_tbl db, tt_id tt \<in> set (pf_transfo_trees pf)]"

text \<open>The result row made of a transformation record and a value of \<^verbatim>\<open>sc\<close>.\<close>

definition edge_of :: "transfo \<Rightarrow> bool \<Rightarrow> edge_row" where
  "edge_of t sc =
     \<lparr>e_id = t_id t, e_source = t_source t, e_target = t_target t,
      e_transfo_type = t_transfo_type t, e_sc = sc\<rparr>"

text \<open>The same tables met in another order by a scan.\<close>

definition rev_tables :: "database \<Rightarrow> database" where
  "rev_tables db =
     \<lparr>platform_tbl = rev (platform_tbl db),
      platform_config_tbl = rev (platform_config_tbl db),
      transfo_tree_tbl = rev (transfo_tree_tbl db),
      transfo_tbl = rev (transfo_tbl db),
      referential_tbl = rev (referential_tbl db)\<rparr>"

section \<open>Sample stores\<close>

definition pfm :: "int \<Rightarrow> platform" where
  "pfm i = \<lparr>p_id = i, p_name = ''van'', p_description = [], p_start_time = None, p_end_time = None\<rparr>"

definition store_platforms :: database where
  "store_platforms =
     \<lparr>platform_tbl = [pfm 1, pfm 2], platform_config_tbl = [], transfo_tree_tbl = [],
      transfo_tbl = [], referential_tbl = []\<rparr>"

definition cfg :: "int \<Rightarrow> int list \<Rightarrow> platform_config" where
  "cfg i trees =
     \<lparr>pf_id = i, pf_name = ''cfg'', pf_owner = ''li3ds'', pf_platform = 1, pf_transfo_trees = trees\<rparr>"

definition tree :: "int \<Rightarrow> int list \<Rightarrow> bool \<Rightarrow> transfo_tree" where
  "tree i ts sc = \<lparr>tt_id = i, tt_transfos = ts, tt_sensor_connections = sc\<rparr>"

definition tr :: "int \<Rightarrow> int \<Rightarrow> int \<Rightarrow> transfo" where
  "tr i s t = \<lparr>t_id = i, t_source = s, t_target = t, t_transfo_type = 1\<rparr>"

definition rf :: "int \<Rightarrow> string \<Rightarrow> bool \<Rightarrow> referential" where
  "rf i n root = \<lparr>r_id = i, r_name = n, r_root = root\<rparr>"

text \<open>
  The store of the specification's scenario A. The scenario gives no value for the
  column \<^verbatim>\<open>sensor_connections\<close> of its two trees, so they are parameters.
\<close>

definition scenario_A :: "bool \<Rightarrow> bool \<Rightarrow> database" where
  "scenario_A sc1 sc2 =
     \<lparr>platform_tbl = [pfm 1],
      platform_config_tbl = [cfg 7 [1, 2]],
      transfo_tree_tbl = [tree 1 [10, 11] sc1, tree 2 [11, 12] sc2],
      transfo_tbl = [tr 10 100 101, tr 11 101 102, tr 12 102 103],
      referential_tbl = [rf 100 ''base'' True, rf 101 ''imu'' False, rf 102 ''cam'' False,
                         rf 103 ''lidar'' False]\<rparr>"

text \<open>A transformation whose target is no stored referential.\<close>

definition store_dangling :: database where
  "store_dangling =
     \<lparr>platform_tbl = [pfm 1],
      platform_config_tbl = [cfg 1 [1]],
      transfo_tree_tbl = [tree 1 [10] False],
      transfo_tbl = [tr 10 100 101],
      referential_tbl = [rf 100 ''base'' True]\<rparr>"

text \<open>One transformation in two trees whose \<^verbatim>\<open>sensor_connections\<close> differ.\<close>

definition store_two_flags :: database where
  "store_two_flags =
     \<lparr>platform_tbl = [pfm 1],
      platform_config_tbl = [cfg 1 [1, 2]],
      transfo_tree_tbl = [tree 1 [10] False, tree 2 [10] True],
      transfo_tbl = [tr 10 100 101],
      referential_tbl = [rf 100 ''base'' True, rf 101 ''imu'' False]\<rparr>"

text \<open>
  Configurations with nothing to draw: 1 lists no tree, 2 lists a tree that is not
  stored, 3 lists a tree with no transformation; 4 has one edge; 9 is not stored.
\<close>

definition store_empties :: database where
  "store_empties =
     \<lparr>platform_tbl = [pfm 1],
      platform_config_tbl = [cfg 1 [], cfg 2 [5], cfg 3 [3], cfg 4 [4]],
      transfo_tree_tbl = [tree 3 [] False, tree 4 [10] False],
      transfo_tbl = [tr 10 100 101],
      referential_tbl = [rf 100 ''base'' True, rf 101 ''imu'' False]\<rparr>"

text \<open>A backend that succeeds on every graph; its bytes stand for the image.\<close>

definition sample_pipe :: "digraph \<Rightarrow> string \<Rightarrow> string option" where
  "sample_pipe dot fmt = Some (fmt @ '' of '' @ str (int (length (body dot))) @ '' statements'')"

text \<open>A backend that fails on every graph.\<close>

definition failing_pipe :: "digraph \<Rightarrow> string \<Rightarrow> string option" where
  "failing_pipe dot fmt = None"

section \<open>Facts about the queries, the loops and \<^verbatim>\<open>str\<close>\<close>

lemma set_config_trees:
  "set (config_trees db cid) =
     {tt \<in> set (transfo_tree_tbl db).
        \<exists>pf \<in> set (platform_config_tbl db). pf_id pf = cid \<and> tt_id tt \<in> set (pf_transfo_trees pf)}"
  by (auto simp: config_trees_def)

lemma set_tmp:
  "set (tmp db cid) =
     {(tid, tt_sensor_connections tt) | tid tt. tt \<in> set (config_trees db cid) \<and> tid \<in> set (tt_transfos tt)}"
  by (auto simp: tmp_def config_trees_def)

lemma in_tmp_iff:
  "(tid, sc) \<in> set (tmp db cid) \<longleftrightarrow>
     (\<exists>tt \<in> set (config_trees db cid). tid \<in> set (tt_transfos tt) \<and> sc = tt_sensor_connections tt)"
  unfolding set_tmp by blast

lemma query_edges_edge_of:
  "query_edges db cid =
     remdups [edge_of t (snd p). p \<leftarrow> tmp db cid, t \<leftarrow> transfo_tbl db, t_id t = fst p]"
  unfolding query_edges_def edge_of_def ..

lemma in_query_edges_tmp:
  "e \<in> set (query_edges db cid) \<longleftrightarrow>
     (\<exists>tid sc. (tid, sc) \<in> set (tmp db cid) \<and>
        (\<exists>t \<in> set (transfo_tbl db). t_id t = tid \<and> e = edge_of t sc))"
  unfolding query_edges_edge_of by force

lemma in_query_edges_iff:
  "e \<in> set (query_edges db cid) \<longleftrightarrow>
     (\<exists>tt \<in> set (config_trees db cid). \<exists>t \<in> set (transfo_tbl db).
        t_id t \<in> set (tt_transfos tt) \<and> e = edge_of t (tt_sensor_connections tt))"
  unfolding in_query_edges_tmp in_tmp_iff by blast

lemma distinct_query_edges: "distinct (query_edges db cid)"
  by (simp add: query_edges_def)

lemma collect_urefs_eq:
  "collect_urefs edges urefs = urefs \<union> e_source ` set edges \<union> e_target ` set edges"
  by (induction edges arbitrary: urefs) auto

lemma set_query_nodes:
  "set (query_nodes db urefs) =
     {\<lparr>n_id = r_id r, n_name = r_name r, n_root = r_root r\<rparr> | r.
        r \<in> set (referential_tbl db) \<and> r_id r \<in> urefs}"
  by (auto simp: query_nodes_def)

lemma ids_query_nodes:
  "n_id ` set (query_nodes db urefs) = urefs \<inter> r_id ` set (referential_tbl db)"
  unfolding set_query_nodes by force

lemma count_list_map_card:
  "distinct xs \<Longrightarrow> count_list (map f xs) k = card {x \<in> set xs. f x = k}"
proof -
  assume d: "distinct xs"
  have "count_list (map f xs) k = length (filter (\<lambda>x. f x = k) xs)"
    by (induction xs) auto
  also have "\<dots> = card ({x. f x = k} \<inter> set xs)"
    using d by (rule distinct_length_filter)
  also have "{x. f x = k} \<inter> set xs = {x \<in> set xs. f x = k}" by auto
  finally show ?thesis .
qed

lemma str_nat_not_Nil: "str_nat n \<noteq> []"
  by (subst str_nat.simps) simp

lemma digit_char_cases:
  "d < 10 \<Longrightarrow> d = 0 \<or> d = 1 \<or> d = 2 \<or> d = 3 \<or> d = 4 \<or> d = 5 \<or> d = 6 \<or> d = 7 \<or> d = 8 \<or> d = (9::nat)"
  by arith

lemma digit_char_inj: "a < 10 \<Longrightarrow> b < 10 \<Longrightarrow> digit_char a = digit_char b \<Longrightarrow> a = b"
  using digit_char_cases [of a] digit_char_cases [of b]
  by (auto simp: digit_char_def)

lemma digit_char_not_minus: "d < 10 \<Longrightarrow> digit_char d \<noteq> CHR ''-''"
  using digit_char_cases [of d] by (auto simp: digit_char_def)

lemma str_nat_inj: "str_nat n = str_nat m \<Longrightarrow> n = m"
proof (induction n arbitrary: m rule: str_nat.induct)
  case (1 n)
  show ?case
  proof (cases "n < 10")
    case True
    note n = this
    show ?thesis
    proof (cases "m < 10")
      case True
      with n "1.prems" show ?thesis
        by (simp add: str_nat.simps [of n] str_nat.simps [of m] digit_char_inj)
    next
      case False
      with n "1.prems" str_nat_not_Nil [of "m div 10"] show ?thesis
        by (simp add: str_nat.simps [of n] str_nat.simps [of m])
    qed
  next
    case False
    note n = this
    show ?thesis
    proof (cases "m < 10")
      case True
      with n "1.prems" str_nat_not_Nil [of "n div 10"] show ?thesis
        by (simp add: str_nat.simps [of n] str_nat.simps [of m])
    next
      case False
      with n "1.prems" have a: "str_nat (n div 10) = str_nat (m div 10)"
        and b: "digit_char (n mod 10) = digit_char (m mod 10)"
        by (simp_all add: str_nat.simps [of n] str_nat.simps [of m])
      from "1.IH" [OF n a] have "n div 10 = m div 10" .
      moreover from b have "n mod 10 = m mod 10" by (simp add: digit_char_inj)
      ultimately show ?thesis by (metis div_mult_mod_eq)
    qed
  qed
qed

lemma hd_str_nat: "hd (str_nat n) \<noteq> CHR ''-''"
proof (induction n rule: str_nat.induct)
  case (1 n)
  show ?case
  proof (cases "n < 10")
    case True
    then show ?thesis by (simp add: str_nat.simps [of n] digit_char_not_minus)
  next
    case False
    with "1.IH" str_nat_not_Nil [of "n div 10"] show ?thesis
      by (simp add: str_nat.simps [of n])
  qed
qed

lemma str_inj: "str i = str j \<Longrightarrow> i = j"
proof -
  assume h: "str i = str j"
  have ne: "\<And>n m. str_nat n \<noteq> CHR ''-'' # str_nat m"
    using hd_str_nat by (metis list.sel(1))
  show ?thesis
  proof (cases "i < 0")
    case True
    note i = this
    show ?thesis
    proof (cases "j < 0")
      case True
      with i h have "str_nat (nat (- i)) = str_nat (nat (- j))" by (simp add: str_def)
      then have "nat (- i) = nat (- j)" by (rule str_nat_inj)
      with i True show ?thesis by simp
    next
      case False
      with i h ne [of "nat j" "nat (- i)"] show ?thesis by (simp add: str_def)
    qed
  next
    case False
    note i = this
    show ?thesis
    proof (cases "j < 0")
      case True
      with i h ne [of "nat i" "nat (- j)"] show ?thesis by (simp add: str_def)
    next
      case False
      with i h have "str_nat (nat i) = str_nat (nat j)" by (simp add: str_def)
      then have "nat i = nat j" by (rule str_nat_inj)
      with i False show ?thesis by simp
    qed
  qed
qed

lemmas sample_defs = scenario_A_def store_dangling_def store_two_flags_def store_empties_def
  cfg_def tree_def tr_def rf_def pfm_def

lemmas query_defs = preview_edges_def preview_nodes_def preview_urefs_def query_edges_def
  query_nodes_def tmp_def

lemma in_preview_edges_iff:
  "e \<in> set (preview_edges db cid) \<longleftrightarrow>
     (\<exists>tt \<in> set (config_trees db cid). \<exists>t \<in> set (transfo_tbl db).
        t_id t \<in> set (tt_transfos tt) \<and> e = edge_of t (tt_sensor_connections tt))"
  by (simp add: preview_edges_def in_query_edges_iff)

lemma preview_urefs_eq:
  "preview_urefs db cid =
     e_source ` set (preview_edges db cid) \<union> e_target ` set (preview_edges db cid)"
  by (simp add: preview_urefs_def collect_urefs_eq)

lemma ids_preview_nodes:
  "n_id ` set (preview_nodes db cid) =
     (e_source ` set (preview_edges db cid) \<union> e_target ` set (preview_edges db cid))
       \<inter> r_id ` set (referential_tbl db)"
  by (simp add: preview_nodes_def ids_query_nodes preview_urefs_eq)

lemma add_nodes_eq:
  "add_nodes nodes dot =
     dot\<lparr>body := body dot @ map (\<lambda>n. NodeStmt (str (n_id n)) (node_label n)
                           (if n_root n then [(''color'', ''red'')] else [])) nodes\<rparr>"
  by (induction nodes arbitrary: dot) (simp_all add: dot_node_def)

lemma add_edges_eq:
  "add_edges edges dot =
     dot\<lparr>body := body dot @ map (\<lambda>e. EdgeStmt (str (e_source e)) (str (e_target e)) (str (e_id e))
                           (if e_sc e then [(''color'', ''blue'')] else [])) edges\<rparr>"
  by (induction edges arbitrary: dot) (simp_all add: dot_edge_def)

lemma preview_dot_eq:
  "preview_dot db cid =
     \<lparr>comment = ''Transformations'',
      body = map (\<lambda>n. NodeStmt (str (n_id n)) (node_label n)
                           (if n_root n then [(''color'', ''red'')] else [])) (preview_nodes db cid)
           @ map (\<lambda>e. EdgeStmt (str (e_source e)) (str (e_target e)) (str (e_id e))
                           (if e_sc e then [(''color'', ''blue'')] else [])) (preview_edges db cid),
      graph_attr = [(''overlap'', ''scalexy'')],
      engine = ''dot''\<rparr>"
  by (simp add: preview_dot_def Let_def add_nodes_eq add_edges_eq Digraph_def)

lemma config_trees_absent:
  "cid \<notin> pf_id ` set (platform_config_tbl db) \<Longrightarrow> config_trees db cid = []"
proof -
  assume h: "cid \<notin> pf_id ` set (platform_config_tbl db)"
  have "set (config_trees db cid) = {}"
    unfolding set_config_trees using h by auto
  then show ?thesis by simp
qed

lemma preview_edges_empty_iff:
  "preview_edges db cid = [] \<longleftrightarrow>
     (\<forall>tt \<in> set (config_trees db cid). \<forall>tid \<in> set (tt_transfos tt).
        tid \<notin> t_id ` set (transfo_tbl db))"
proof -
  have "preview_edges db cid = [] \<longleftrightarrow> (\<forall>e. e \<notin> set (preview_edges db cid))"
    by (cases "preview_edges db cid") auto
  also have "\<dots> \<longleftrightarrow> (\<forall>tt \<in> set (config_trees db cid). \<forall>tid \<in> set (tt_transfos tt).
        tid \<notin> t_id ` set (transfo_tbl db))"
    unfolding in_preview_edges_iff by blast
  finally show ?thesis .
qed

lemma preview_nodes_no_edges:
  "preview_edges db cid = [] \<Longrightarrow> preview_nodes db cid = []"
  by (simp add: preview_nodes_def preview_urefs_def query_nodes_def)

lemma preview_dot_no_edges:
  "preview_edges db cid = [] \<Longrightarrow>
   preview_dot db cid =
     \<lparr>comment = ''Transformations'', body = [], graph_attr = [(''overlap'', ''scalexy'')],
      engine = ''dot''\<rparr>"
  by (simp add: preview_dot_eq preview_nodes_no_edges)

lemma get_never_aborts: "PlatformConfigPreview_get db pipe cid \<noteq> Inl (Abort c m)"
  by (simp add: PlatformConfigPreview_get_def split: option.splits)

lemma get_cases:
  "PlatformConfigPreview_get db pipe cid =
     (case pipe (preview_dot db cid) ''png'' of
        None \<Rightarrow> Inl BackendFault
      | Some d \<Rightarrow>
          Inr \<lparr>data = d, status = 200, content_type = ''image/png'', mimetype = ''image/png''\<rparr>)"
  by (simp add: PlatformConfigPreview_get_def make_response_def split: option.splits)

lemma edge_stmt_in_body:
  "e \<in> set (preview_edges db cid) \<Longrightarrow>
   EdgeStmt (str (e_source e)) (str (e_target e)) (str (e_id e))
      (if e_sc e then [(''color'', ''blue'')] else []) \<in> set (body (preview_dot db cid))"
  by (simp add: preview_dot_eq image_iff) blast

lemma node_stmt_in_body:
  "NodeStmt (str x) l a \<in> set (body (preview_dot db cid)) \<Longrightarrow> x \<in> n_id ` set (preview_nodes db cid)"
  by (auto simp: preview_dot_eq dest: str_inj)

lemma node_ids_stored: "x \<in> n_id ` set (preview_nodes db cid) \<Longrightarrow> x \<in> r_id ` set (referential_tbl db)"
  unfolding ids_preview_nodes by blast

lemma set_config_trees_cong:
  assumes "set (platform_config_tbl db) = set (platform_config_tbl db')"
    and "set (transfo_tree_tbl db) = set (transfo_tree_tbl db')"
  shows "set (config_trees db cid) = set (config_trees db' cid)"
  unfolding set_config_trees using assms by simp

lemma edge_of_inj: "edge_of t sc = edge_of t' sc' \<longleftrightarrow>
    t_id t = t_id t' \<and> t_source t = t_source t' \<and> t_target t = t_target t'
    \<and> t_transfo_type t = t_transfo_type t' \<and> sc = sc'"
  by (auto simp: edge_of_def)

lemma e_id_edge_of [simp]: "e_id (edge_of t sc) = t_id t"
  by (simp add: edge_of_def)

lemma e_sc_edge_of [simp]: "e_sc (edge_of t sc) = sc"
  by (simp add: edge_of_def)

lemma distinct_preview_edges: "distinct (preview_edges db cid)"
  by (simp add: preview_edges_def distinct_query_edges)

lemma unique_transfo:
  "distinct (map t_id (transfo_tbl db)) \<Longrightarrow> t \<in> set (transfo_tbl db) \<Longrightarrow>
   t' \<in> set (transfo_tbl db) \<Longrightarrow> t_id t' = t_id t \<Longrightarrow> t' = t"
  by (auto simp: distinct_map dest: inj_onD)

lemma rows_of_id:
  assumes "distinct (map t_id (transfo_tbl db))" and "t \<in> set (transfo_tbl db)"
  shows "{e \<in> set (preview_edges db cid). e_id e = t_id t} =
     (\<lambda>tt. edge_of t (tt_sensor_connections tt)) `
        {tt \<in> set (config_trees db cid). t_id t \<in> set (tt_transfos tt)}"
proof (rule set_eqI)
  fix e
  show "e \<in> {e \<in> set (preview_edges db cid). e_id e = t_id t} \<longleftrightarrow>
     e \<in> (\<lambda>tt. edge_of t (tt_sensor_connections tt)) `
        {tt \<in> set (config_trees db cid). t_id t \<in> set (tt_transfos tt)}"
  proof
    assume "e \<in> {e \<in> set (preview_edges db cid). e_id e = t_id t}"
    then have m: "e \<in> set (preview_edges db cid)" and i: "e_id e = t_id t" by simp_all
    from m obtain tt t' where tt: "tt \<in> set (config_trees db cid)"
      and t': "t' \<in> set (transfo_tbl db)" and c: "t_id t' \<in> set (tt_transfos tt)"
      and e: "e = edge_of t' (tt_sensor_connections tt)"
      unfolding in_preview_edges_iff by blast
    from i e have "t_id t' = t_id t" by simp
    with assms t' have "t' = t" by (rule unique_transfo)
    with tt c e show "e \<in> (\<lambda>tt. edge_of t (tt_sensor_connections tt)) `
        {tt \<in> set (config_trees db cid). t_id t \<in> set (tt_transfos tt)}" by blast
  next
    assume "e \<in> (\<lambda>tt. edge_of t (tt_sensor_connections tt)) `
        {tt \<in> set (config_trees db cid). t_id t \<in> set (tt_transfos tt)}"
    then obtain tt where "tt \<in> set (config_trees db cid)" "t_id t \<in> set (tt_transfos tt)"
      "e = edge_of t (tt_sensor_connections tt)" by blast
    with assms(2) show "e \<in> {e \<in> set (preview_edges db cid). e_id e = t_id t}"
      unfolding in_preview_edges_iff by auto
  qed
qed

lemma count_rows_of_id:
  "count_list (map e_id (preview_edges db cid)) k =
     card {e \<in> set (preview_edges db cid). e_id e = k}"
  using distinct_preview_edges by (rule count_list_map_card)



lemma count_two_flags:
  assumes u: "distinct (map t_id (transfo_tbl db))" and t: "t \<in> set (transfo_tbl db)"
    and t1: "tt1 \<in> set (config_trees db cid)" "t_id t \<in> set (tt_transfos tt1)"
    and t2: "tt2 \<in> set (config_trees db cid)" "t_id t \<in> set (tt_transfos tt2)"
    and d: "tt_sensor_connections tt1 \<noteq> tt_sensor_connections tt2"
  shows "count_list (map e_id (preview_edges db cid)) (t_id t) = 2"
proof -
  define T where "T = {tt \<in> set (config_trees db cid). t_id t \<in> set (tt_transfos tt)}"
  define f where "f = (\<lambda>tt::transfo_tree. edge_of t (tt_sensor_connections tt))"
  have m1: "tt1 \<in> T" and m2: "tt2 \<in> T" using t1 t2 by (simp_all add: T_def)
  have sub: "f ` T \<subseteq> {edge_of t True, edge_of t False}"
  proof
    fix e assume "e \<in> f ` T"
    then obtain tt where "e = f tt" by blast
    then show "e \<in> {edge_of t True, edge_of t False}"
      by (cases "tt_sensor_connections tt") (simp_all add: f_def)
  qed
  have tr: "edge_of t True \<in> f ` T"
  proof (cases "tt_sensor_connections tt1")
    case True
    then have "f tt1 = edge_of t True" by (simp add: f_def)
    with m1 show ?thesis by (metis imageI)
  next
    case False
    with d have "tt_sensor_connections tt2" by simp
    then have "f tt2 = edge_of t True" by (simp add: f_def)
    with m2 show ?thesis by (metis imageI)
  qed
  have fa: "edge_of t False \<in> f ` T"
  proof (cases "tt_sensor_connections tt1")
    case False
    then have "f tt1 = edge_of t False" by (simp add: f_def)
    with m1 show ?thesis by (metis imageI)
  next
    case True
    with d have "\<not> tt_sensor_connections tt2" by simp
    then have "f tt2 = edge_of t False" by (simp add: f_def)
    with m2 show ?thesis by (metis imageI)
  qed
  from tr fa have "{edge_of t True, edge_of t False} \<subseteq> f ` T" by simp
  with sub have "f ` T = {edge_of t True, edge_of t False}" by blast
  then have "{e \<in> set (preview_edges db cid). e_id e = t_id t} = {edge_of t True, edge_of t False}"
    using rows_of_id [OF u t, of cid] by (simp add: T_def f_def)
  then have "count_list (map e_id (preview_edges db cid)) (t_id t)
      = card {edge_of t True, edge_of t False}" by (simp only: count_rows_of_id)
  moreover have "edge_of t True \<noteq> edge_of t False" by (simp add: edge_of_inj)
  ultimately show ?thesis by simp
qed

lemma count_one_flag:
  assumes u: "distinct (map t_id (transfo_tbl db))" and t: "t \<in> set (transfo_tbl db)"
    and t1: "tt1 \<in> set (config_trees db cid)" "t_id t \<in> set (tt_transfos tt1)"
    and s: "\<forall>tt \<in> set (config_trees db cid). t_id t \<in> set (tt_transfos tt) \<longrightarrow>
              tt_sensor_connections tt = tt_sensor_connections tt1"
  shows "count_list (map e_id (preview_edges db cid)) (t_id t) = 1"
proof -
  define T where "T = {tt \<in> set (config_trees db cid). t_id t \<in> set (tt_transfos tt)}"
  define f where "f = (\<lambda>tt::transfo_tree. edge_of t (tt_sensor_connections tt))"
  have m1: "tt1 \<in> T" using t1 by (simp add: T_def)
  have c: "\<And>tt. tt \<in> T \<Longrightarrow> f tt = f tt1" using s by (simp add: T_def f_def)
  have "f ` T = {f tt1}"
  proof
    show "f ` T \<subseteq> {f tt1}" using c by blast
    show "{f tt1} \<subseteq> f ` T" using m1 by blast
  qed
  then have "{e \<in> set (preview_edges db cid). e_id e = t_id t} = {f tt1}"
    using rows_of_id [OF u t, of cid] by (simp add: T_def f_def)
  then show ?thesis by (simp add: count_rows_of_id)
qed

lemma count_zero:
  assumes "k \<notin> t_id ` set (transfo_tbl db) \<or> (\<forall>tt \<in> set (config_trees db cid). k \<notin> set (tt_transfos tt))"
  shows "count_list (map e_id (preview_edges db cid)) k = 0"
proof -
  have "\<And>e. e \<in> set (preview_edges db cid) \<Longrightarrow> e_id e \<noteq> k"
  proof -
    fix e assume "e \<in> set (preview_edges db cid)"
    then obtain tt t where "tt \<in> set (config_trees db cid)" "t \<in> set (transfo_tbl db)"
      "t_id t \<in> set (tt_transfos tt)" "e = edge_of t (tt_sensor_connections tt)"
      unfolding in_preview_edges_iff by blast
    with assms show "e_id e \<noteq> k" by auto
  qed
  then have "{e \<in> set (preview_edges db cid). e_id e = k} = {}" by blast
  then show ?thesis by (simp add: count_rows_of_id)
qed

lemma edge_of_stmt_in_body:
  assumes "tt \<in> set (config_trees db cid)" and "t \<in> set (transfo_tbl db)"
    and "t_id t \<in> set (tt_transfos tt)"
  shows "edge_of t (tt_sensor_connections tt) \<in> set (preview_edges db cid)"
    and "EdgeStmt (str (t_source t)) (str (t_target t)) (str (t_id t))
           (if tt_sensor_connections tt then [(''color'', ''blue'')] else [])
         \<in> set (body (preview_dot db cid))"
proof -
  show m: "edge_of t (tt_sensor_connections tt) \<in> set (preview_edges db cid)"
    unfolding in_preview_edges_iff using assms by blast
  from edge_stmt_in_body [OF m]
  show "EdgeStmt (str (t_source t)) (str (t_target t)) (str (t_id t))
           (if tt_sensor_connections tt then [(''color'', ''blue'')] else [])
         \<in> set (body (preview_dot db cid))"
    by (simp add: edge_of_def)
qed

lemma both_rows:
  assumes t: "t \<in> set (transfo_tbl db)"
    and t1: "tt1 \<in> set (config_trees db cid)" "t_id t \<in> set (tt_transfos tt1)"
    and t2: "tt2 \<in> set (config_trees db cid)" "t_id t \<in> set (tt_transfos tt2)"
    and d: "tt_sensor_connections tt1 \<noteq> tt_sensor_connections tt2"
  shows "edge_of t True \<in> set (preview_edges db cid) \<and> edge_of t False \<in> set (preview_edges db cid)"
proof (cases "tt_sensor_connections tt1")
  case True
  with d have f: "\<not> tt_sensor_connections tt2" by simp
  from edge_of_stmt_in_body(1) [OF t1(1) t t1(2)] True
  have "edge_of t True \<in> set (preview_edges db cid)" by simp
  moreover from edge_of_stmt_in_body(1) [OF t2(1) t t2(2)] f
  have "edge_of t False \<in> set (preview_edges db cid)" by simp
  ultimately show ?thesis by (rule conjI)
next
  case False
  with d have f: "tt_sensor_connections tt2" by simp
  from edge_of_stmt_in_body(1) [OF t1(1) t t1(2)] False
  have "edge_of t False \<in> set (preview_edges db cid)" by simp
  moreover from edge_of_stmt_in_body(1) [OF t2(1) t t2(2)] f
  have "edge_of t True \<in> set (preview_edges db cid)" by simp
  ultimately show ?thesis by simp
qed

section \<open>The sample stores evaluated\<close>

lemma edges_scenario_A:
  "preview_edges (scenario_A sc1 sc2) 7 =
     remdups [edge_of (tr 10 100 101) sc1, edge_of (tr 11 101 102) sc1,
              edge_of (tr 11 101 102) sc2, edge_of (tr 12 102 103) sc2]"
  by (simp add: query_defs sample_defs edge_of_def)

lemma edges_store_dangling:
  "preview_edges store_dangling 1 = [edge_of (tr 10 100 101) False]"
  by (simp add: query_defs sample_defs edge_of_def)

lemma urefs_store_dangling: "preview_urefs store_dangling 1 = {100, 101}"
  by (auto simp: preview_urefs_def edges_store_dangling edge_of_def tr_def)

lemma nodes_store_dangling:
  "preview_nodes store_dangling 1 = [\<lparr>n_id = 100, n_name = ''base'', n_root = True\<rparr>]"
proof -
  have "referential_tbl store_dangling = [rf 100 ''base'' True]"
    by (simp add: store_dangling_def)
  then show ?thesis
    by (simp add: preview_nodes_def urefs_store_dangling query_nodes_def rf_def)
qed

lemma set_edges_scenario_A:
  "set (preview_edges (scenario_A sc1 sc2) 7) =
     {edge_of (tr 10 100 101) sc1, edge_of (tr 11 101 102) sc1,
      edge_of (tr 11 101 102) sc2, edge_of (tr 12 102 103) sc2}"
  unfolding edges_scenario_A set_remdups by auto

lemma urefs_scenario_A: "preview_urefs (scenario_A sc1 sc2) 7 = {100, 101, 102, 103}"
  unfolding preview_urefs_eq set_edges_scenario_A
  by (auto simp: edge_of_def tr_def)

lemma nodes_scenario_A:
  "preview_nodes (scenario_A sc1 sc2) 7 =
     [\<lparr>n_id = 100, n_name = ''base'', n_root = True\<rparr>,
      \<lparr>n_id = 101, n_name = ''imu'', n_root = False\<rparr>,
      \<lparr>n_id = 102, n_name = ''cam'', n_root = False\<rparr>,
      \<lparr>n_id = 103, n_name = ''lidar'', n_root = False\<rparr>]"
proof -
  have "referential_tbl (scenario_A sc1 sc2) =
      [rf 100 ''base'' True, rf 101 ''imu'' False, rf 102 ''cam'' False, rf 103 ''lidar'' False]"
    by (simp add: scenario_A_def)
  then show ?thesis
    by (simp add: preview_nodes_def urefs_scenario_A query_nodes_def rf_def)
qed

lemma str_samples:
  "str 10 = ''10''" "str 11 = ''11''" "str 12 = ''12''"
  "str 100 = ''100''" "str 101 = ''101''" "str 102 = ''102''" "str 103 = ''103''"
  by (simp_all add: str_def str_nat.simps digit_char_def)

lemma trees_store_empties:
  "config_trees store_empties 1 = []" "config_trees store_empties 2 = []"
  "config_trees store_empties 3 = [tree 3 [] False]" "config_trees store_empties 9 = []"
  by (simp_all add: config_trees_def store_empties_def cfg_def tree_def)

lemma edges_store_two_flags:
  "preview_edges store_two_flags 1 = [edge_of (tr 10 100 101) False, edge_of (tr 10 100 101) True]"
  by (simp add: query_defs sample_defs edge_of_def)

lemma urefs_store_two_flags: "preview_urefs store_two_flags 1 = {100, 101}"
  by (auto simp: preview_urefs_def edges_store_two_flags edge_of_def tr_def)

lemma nodes_store_two_flags:
  "preview_nodes store_two_flags 1 =
     [\<lparr>n_id = 100, n_name = ''base'', n_root = True\<rparr>,
      \<lparr>n_id = 101, n_name = ''imu'', n_root = False\<rparr>]"
proof -
  have "referential_tbl store_two_flags = [rf 100 ''base'' True, rf 101 ''imu'' False]"
    by (simp add: store_two_flags_def)
  then show ?thesis
    by (simp add: preview_nodes_def urefs_store_two_flags query_nodes_def rf_def)
qed

lemma body_store_dangling:
  "body (preview_dot store_dangling 1) =
     [NodeStmt ''100'' (''base'' @ [CHR 0x0A] @ ''(100)'') [(''color'', ''red'')],
      EdgeStmt ''100'' ''101'' ''10'' []]"
  by (simp add: preview_dot_eq nodes_store_dangling edges_store_dangling edge_of_def tr_def
      str_samples node_label_def)

lemma get_store_dangling:
  "PlatformConfigPreview_get store_dangling sample_pipe 1 =
       Inr \<lparr>data = ''png of 2 statements'', status = 200, content_type = ''image/png'',
            mimetype = ''image/png''\<rparr>"
  by (simp add: get_cases sample_pipe_def body_store_dangling str_def str_nat.simps digit_char_def)

lemma edges_rev_scenario_A:
  "preview_edges (rev_tables (scenario_A False True)) 7 =
     [edge_of (tr 11 101 102) True, edge_of (tr 12 102 103) True,
      edge_of (tr 10 100 101) False, edge_of (tr 11 101 102) False]"
  by (simp add: query_defs rev_tables_def sample_defs edge_of_def)

lemma trees_scenario_A:
  "config_trees (scenario_A sc1 sc2) 7 = [tree 1 [10, 11] sc1, tree 2 [11, 12] sc2]"
  by (simp add: config_trees_def scenario_A_def cfg_def tree_def)

lemma trees_store_two_flags:
  "config_trees store_two_flags 1 = [tree 1 [10] False, tree 2 [10] True]"
  by (simp add: config_trees_def store_two_flags_def cfg_def tree_def)

section \<open>Nodes are the stored endpoints of the edges\<close>

text \<open>
  Claim C1, as the code has it. For every store and configuration id, the ids of the
  assembled nodes are the source and target ids of the assembled edges that are ids of
  stored referentials: no node is an orphan, and every endpoint that is stored is a
  node. When every endpoint is stored, the node ids are exactly the union of the
  source and target ids over the edges.
\<close>

theorem nodes_are_stored_endpoints:
  "n_id ` set (preview_nodes db cid) =
     (e_source ` set (preview_edges db cid) \<union> e_target ` set (preview_edges db cid))
       \<inter> r_id ` set (referential_tbl db)
   \<and> (e_source ` set (preview_edges db cid) \<union> e_target ` set (preview_edges db cid)
         \<subseteq> r_id ` set (referential_tbl db) \<longrightarrow>
       n_id ` set (preview_nodes db cid) =
         e_source ` set (preview_edges db cid) \<union> e_target ` set (preview_edges db cid))"
proof -
  let ?E = "e_source ` set (preview_edges db cid) \<union> e_target ` set (preview_edges db cid)"
  have u: "preview_urefs db cid = ?E"
    by (simp add: preview_urefs_def collect_urefs_eq)
  have n: "n_id ` set (preview_nodes db cid) = preview_urefs db cid \<inter> r_id ` set (referential_tbl db)"
    by (simp add: preview_nodes_def ids_query_nodes)
  from u n have a: "n_id ` set (preview_nodes db cid) = ?E \<inter> r_id ` set (referential_tbl db)"
    by simp
  have b: "?E \<subseteq> r_id ` set (referential_tbl db) \<longrightarrow> n_id ` set (preview_nodes db cid) = ?E"
    unfolding a by blast
  from a b show ?thesis by (rule conjI)
qed

text \<open>
  In scenario A every endpoint is a stored referential, so the node ids are the union.
\<close>

theorem nodes_are_stored_endpoints_witness:
  "e_source ` set (preview_edges (scenario_A False True) 7)
     \<union> e_target ` set (preview_edges (scenario_A False True) 7)
     \<subseteq> r_id ` set (referential_tbl (scenario_A False True))
   \<and> n_id ` set (preview_nodes (scenario_A False True) 7) =
       e_source ` set (preview_edges (scenario_A False True) 7)
         \<union> e_target ` set (preview_edges (scenario_A False True) 7)
   \<and> n_id ` set (preview_nodes (scenario_A False True) 7) = {100, 101, 102, 103}"
proof -
  have u: "e_source ` set (preview_edges (scenario_A False True) 7)
     \<union> e_target ` set (preview_edges (scenario_A False True) 7) = {100, 101, 102, 103}"
    using urefs_scenario_A [of False True] by (simp add: preview_urefs_eq)
  have r: "r_id ` set (referential_tbl (scenario_A False True)) = {100, 101, 102, 103}"
    by (simp add: scenario_A_def rf_def)
  have h: "e_source ` set (preview_edges (scenario_A False True) 7)
     \<union> e_target ` set (preview_edges (scenario_A False True) 7)
     \<subseteq> r_id ` set (referential_tbl (scenario_A False True))"
    unfolding u r by simp
  with nodes_are_stored_endpoints [of "scenario_A False True" 7]
  have "n_id ` set (preview_nodes (scenario_A False True) 7) =
       e_source ` set (preview_edges (scenario_A False True) 7)
         \<union> e_target ` set (preview_edges (scenario_A False True) 7)"
    by blast
  with h u show ?thesis by simp
qed

text \<open>
  Claim C1 as stated fails where an edge ends at an id that is no stored referential:
  the edge of \<open>store_dangling\<close> goes from 100 to 101, and the only node is 100.
\<close>

theorem nodes_miss_unstored_endpoint:
  "e_source ` set (preview_edges store_dangling 1) \<union> e_target ` set (preview_edges store_dangling 1)
     = {100, 101}
   \<and> n_id ` set (preview_nodes store_dangling 1) = {100}
   \<and> n_id ` set (preview_nodes store_dangling 1) \<noteq>
       e_source ` set (preview_edges store_dangling 1) \<union> e_target ` set (preview_edges store_dangling 1)"
  by (auto simp: edges_store_dangling nodes_store_dangling edge_of_def tr_def)


text \<open>
  Claim C6, as the code has it. The handler checks nothing about the endpoints. An
  assembled edge whose source or target id is no stored referential is never dropped:
  its edge statement is in the graph description. The missing endpoint is no assembled
  node and no node statement is written for it. The handler does not abort on this
  account, and returns the image whenever the backend gives one.
\<close>

theorem unstored_endpoint_edge_is_drawn:
  assumes "e \<in> set (preview_edges db cid)"
    and "x = e_source e \<or> x = e_target e"
    and "x \<notin> r_id ` set (referential_tbl db)"
  shows "EdgeStmt (str (e_source e)) (str (e_target e)) (str (e_id e))
           (if e_sc e then [(''color'', ''blue'')] else []) \<in> set (body (preview_dot db cid))
    \<and> x \<notin> n_id ` set (preview_nodes db cid)
    \<and> (\<forall>l a. NodeStmt (str x) l a \<notin> set (body (preview_dot db cid)))
    \<and> (\<forall>c m. PlatformConfigPreview_get db pipe cid \<noteq> Inl (Abort c m))
    \<and> (\<forall>d. pipe (preview_dot db cid) ''png'' = Some d \<longrightarrow>
          PlatformConfigPreview_get db pipe cid =
            Inr \<lparr>data = d, status = 200, content_type = ''image/png'', mimetype = ''image/png''\<rparr>)"
proof -
  have a: "EdgeStmt (str (e_source e)) (str (e_target e)) (str (e_id e))
           (if e_sc e then [(''color'', ''blue'')] else []) \<in> set (body (preview_dot db cid))"
    using assms(1) by (rule edge_stmt_in_body)
  have b: "x \<notin> n_id ` set (preview_nodes db cid)"
    using assms(3) node_ids_stored by blast
  have c: "\<forall>l a. NodeStmt (str x) l a \<notin> set (body (preview_dot db cid))"
    using b node_stmt_in_body by blast
  have d: "\<forall>c m. PlatformConfigPreview_get db pipe cid \<noteq> Inl (Abort c m)"
    by (simp add: get_never_aborts)
  have e: "\<forall>d. pipe (preview_dot db cid) ''png'' = Some d \<longrightarrow>
          PlatformConfigPreview_get db pipe cid =
            Inr \<lparr>data = d, status = 200, content_type = ''image/png'', mimetype = ''image/png''\<rparr>"
    by (simp add: get_cases)
  from a b c d e show ?thesis by blast
qed

theorem unstored_endpoint_edge_is_drawn_witness:
  "\<lparr>e_id = 10, e_source = 100, e_target = 101, e_transfo_type = 1, e_sc = False\<rparr>
     \<in> set (preview_edges store_dangling 1)
   \<and> 101 \<notin> r_id ` set (referential_tbl store_dangling)
   \<and> EdgeStmt ''100'' ''101'' ''10'' [] \<in> set (body (preview_dot store_dangling 1))
   \<and> 101 \<notin> n_id ` set (preview_nodes store_dangling 1)
   \<and> NodeStmt ''101'' (''imu'' @ [CHR 0x0A] @ ''(101)'') [] \<notin> set (body (preview_dot store_dangling 1))
   \<and> PlatformConfigPreview_get store_dangling sample_pipe 1 \<noteq> Inl (Abort 410 ''Not found'')"
proof -
  let ?e = "\<lparr>e_id = 10, e_source = 100, e_target = 101, e_transfo_type = 1, e_sc = False\<rparr>"
  have h1: "?e \<in> set (preview_edges store_dangling 1)"
    by (simp add: edges_store_dangling edge_of_def tr_def)
  have h2: "(101::int) = e_source ?e \<or> 101 = e_target ?e" by simp
  have h3: "101 \<notin> r_id ` set (referential_tbl store_dangling)"
    by (simp add: store_dangling_def rf_def)
  note r = unstored_endpoint_edge_is_drawn [OF h1 h2 h3, of sample_pipe]
  from r have "EdgeStmt ''100'' ''101'' ''10'' [] \<in> set (body (preview_dot store_dangling 1))"
    by (simp add: str_samples)
  moreover from r have "101 \<notin> n_id ` set (preview_nodes store_dangling 1)" by blast
  moreover from r have "NodeStmt (str 101) (''imu'' @ [CHR 0x0A] @ ''(101)'') []
      \<notin> set (body (preview_dot store_dangling 1))" by blast
  then have "NodeStmt ''101'' (''imu'' @ [CHR 0x0A] @ ''(101)'') []
      \<notin> set (body (preview_dot store_dangling 1))" by (simp add: str_samples)
  moreover from r have "PlatformConfigPreview_get store_dangling sample_pipe 1 \<noteq> Inl (Abort 410 ''Not found'')"
    by blast
  ultimately show ?thesis using h1 h3 by blast
qed

text \<open>
  Claim C6 as stated fails: in \<open>store_dangling\<close> the target 101 of the edge is not
  stored, the edge is drawn with no node statement for 101, and the request succeeds.
\<close>

theorem unstored_endpoint_is_no_fault:
  "preview_edges store_dangling 1 =
     [\<lparr>e_id = 10, e_source = 100, e_target = 101, e_transfo_type = 1, e_sc = False\<rparr>]
   \<and> 101 \<notin> r_id ` set (referential_tbl store_dangling)
   \<and> body (preview_dot store_dangling 1) =
     [NodeStmt ''100'' (''base'' @ [CHR 0x0A] @ ''(100)'') [(''color'', ''red'')],
      EdgeStmt ''100'' ''101'' ''10'' []]
   \<and> PlatformConfigPreview_get store_dangling sample_pipe 1 =
       Inr \<lparr>data = ''png of 2 statements'', status = 200, content_type = ''image/png'',
            mimetype = ''image/png''\<rparr>"
proof -
  have "101 \<notin> r_id ` set (referential_tbl store_dangling)"
    by (simp add: store_dangling_def rf_def)
  then show ?thesis
    by (simp add: edges_store_dangling edge_of_def tr_def body_store_dangling get_store_dangling)
qed

section \<open>Edge rows and the flag of the tree\<close>

text \<open>
  Claim C2, as the code has it. The edge rows are deduplicated as rows of five columns:
  no row \<^verbatim>\<open>(id, source, target, transfo_type, sc)\<close> appears twice. When the
  transformation ids are unique in \<^verbatim>\<open>li3ds.transfo\<close> and the trees of the
  configuration that contain a transformation id agree on \<^verbatim>\<open>sensor_connections\<close>,
  that id appears at most once among the edges, and exactly once when it is stored and
  some tree of the configuration contains it.
\<close>

theorem edge_rows_are_distinct:
  "distinct (preview_edges db cid)
   \<and> (distinct (map t_id (transfo_tbl db))
       \<and> (\<forall>tt1 \<in> set (config_trees db cid). \<forall>tt2 \<in> set (config_trees db cid).
             tid \<in> set (tt_transfos tt1) \<and> tid \<in> set (tt_transfos tt2) \<longrightarrow>
             tt_sensor_connections tt1 = tt_sensor_connections tt2)
      \<longrightarrow> count_list (map e_id (preview_edges db cid)) tid \<le> 1
          \<and> (tid \<in> t_id ` set (transfo_tbl db)
               \<and> (\<exists>tt \<in> set (config_trees db cid). tid \<in> set (tt_transfos tt))
             \<longrightarrow> count_list (map e_id (preview_edges db cid)) tid = 1))"
proof (intro conjI impI)
  show "distinct (preview_edges db cid)" by (rule distinct_preview_edges)
next
  assume h: "distinct (map t_id (transfo_tbl db))
       \<and> (\<forall>tt1 \<in> set (config_trees db cid). \<forall>tt2 \<in> set (config_trees db cid).
             tid \<in> set (tt_transfos tt1) \<and> tid \<in> set (tt_transfos tt2) \<longrightarrow>
             tt_sensor_connections tt1 = tt_sensor_connections tt2)"
  have one: "count_list (map e_id (preview_edges db cid)) tid = 1"
    if "tid \<in> t_id ` set (transfo_tbl db)"
      and "\<exists>tt \<in> set (config_trees db cid). tid \<in> set (tt_transfos tt)"
  proof -
    from that obtain t tt1 where t: "t \<in> set (transfo_tbl db)" and i: "t_id t = tid"
      and t1: "tt1 \<in> set (config_trees db cid)" and c: "tid \<in> set (tt_transfos tt1)"
      by auto
    have s: "\<forall>tt \<in> set (config_trees db cid). t_id t \<in> set (tt_transfos tt) \<longrightarrow>
              tt_sensor_connections tt = tt_sensor_connections tt1"
      using h t1 c i by blast
    from h have u: "distinct (map t_id (transfo_tbl db))" by blast
    from c i have c': "t_id t \<in> set (tt_transfos tt1)" by simp
    from count_one_flag [OF u t t1 c' s] i show ?thesis by simp
  qed
  show "count_list (map e_id (preview_edges db cid)) tid \<le> 1"
  proof (cases "tid \<in> t_id ` set (transfo_tbl db)
      \<and> (\<exists>tt \<in> set (config_trees db cid). tid \<in> set (tt_transfos tt))")
    case True
    then show ?thesis using one by simp
  next
    case False
    then have "tid \<notin> t_id ` set (transfo_tbl db)
        \<or> (\<forall>tt \<in> set (config_trees db cid). tid \<notin> set (tt_transfos tt))" by blast
    then have "count_list (map e_id (preview_edges db cid)) tid = 0" by (rule count_zero)
    then show ?thesis by simp
  qed
  assume "tid \<in> t_id ` set (transfo_tbl db)
               \<and> (\<exists>tt \<in> set (config_trees db cid). tid \<in> set (tt_transfos tt))"
  then show "count_list (map e_id (preview_edges db cid)) tid = 1" using one by blast
qed

theorem edge_rows_are_distinct_witness:
  "distinct (map t_id (transfo_tbl (scenario_A True True)))
   \<and> 11 \<in> set (tt_transfos (tree 1 [10, 11] True))
   \<and> 11 \<in> set (tt_transfos (tree 2 [11, 12] True))
   \<and> config_trees (scenario_A True True) 7 = [tree 1 [10, 11] True, tree 2 [11, 12] True]
   \<and> distinct (preview_edges (scenario_A True True) 7)
   \<and> count_list (map e_id (preview_edges (scenario_A True True) 7)) 11 = 1"
proof -
  have tb: "transfo_tbl (scenario_A True True) = [tr 10 100 101, tr 11 101 102, tr 12 102 103]"
    by (simp add: scenario_A_def)
  have u: "distinct (map t_id (transfo_tbl (scenario_A True True)))"
    by (simp add: tb tr_def)
  have s: "\<forall>tt1 \<in> set (config_trees (scenario_A True True) 7).
           \<forall>tt2 \<in> set (config_trees (scenario_A True True) 7).
             11 \<in> set (tt_transfos tt1) \<and> 11 \<in> set (tt_transfos tt2) \<longrightarrow>
             tt_sensor_connections tt1 = tt_sensor_connections tt2"
    by (simp add: trees_scenario_A tree_def)
  have m: "11 \<in> t_id ` set (transfo_tbl (scenario_A True True))
      \<and> (\<exists>tt \<in> set (config_trees (scenario_A True True) 7). 11 \<in> set (tt_transfos tt))"
    by (simp add: tb tr_def trees_scenario_A tree_def)
  from edge_rows_are_distinct [of "scenario_A True True" 7 11] u s m
  have "distinct (preview_edges (scenario_A True True) 7)
   \<and> count_list (map e_id (preview_edges (scenario_A True True) 7)) 11 = 1" by blast
  with u show ?thesis by (simp add: trees_scenario_A tree_def)
qed

text \<open>
  Claim C2 as stated fails when two trees that share a transformation differ in
  \<^verbatim>\<open>sensor_connections\<close>: transformation 10 of \<open>store_two_flags\<close> appears twice.
\<close>

theorem shared_transformation_two_rows:
  "config_trees store_two_flags 1 = [tree 1 [10] False, tree 2 [10] True]
   \<and> preview_edges store_two_flags 1 =
      [\<lparr>e_id = 10, e_source = 100, e_target = 101, e_transfo_type = 1, e_sc = False\<rparr>,
       \<lparr>e_id = 10, e_source = 100, e_target = 101, e_transfo_type = 1, e_sc = True\<rparr>]
   \<and> count_list (map e_id (preview_edges store_two_flags 1)) 10 = 2"
  by (simp add: trees_store_two_flags edges_store_two_flags edge_of_def tr_def)


text \<open>
  Claim C8. Every assembled edge is a stored transformation together with the
  \<^verbatim>\<open>sensor_connections\<close> of a tree of the configuration that contains its id; the
  transformation record carries no such flag. Every such pair of a tree and a
  transformation is an edge, drawn blue exactly when the tree's flag is true. A
  transformation contained in two trees whose flags differ has a row for either value;
  with unique transformation ids these are its only rows.
\<close>

theorem sc_is_read_from_the_tree:
  "(\<forall>e \<in> set (preview_edges db cid).
      \<exists>tt \<in> set (config_trees db cid). \<exists>t \<in> set (transfo_tbl db).
        t_id t \<in> set (tt_transfos tt) \<and> e = edge_of t (tt_sensor_connections tt))
   \<and> (\<forall>tt \<in> set (config_trees db cid). \<forall>t \<in> set (transfo_tbl db).
        t_id t \<in> set (tt_transfos tt) \<longrightarrow>
          edge_of t (tt_sensor_connections tt) \<in> set (preview_edges db cid)
          \<and> EdgeStmt (str (t_source t)) (str (t_target t)) (str (t_id t))
               (if tt_sensor_connections tt then [(''color'', ''blue'')] else [])
             \<in> set (body (preview_dot db cid)))
   \<and> (\<forall>tt1 \<in> set (config_trees db cid). \<forall>tt2 \<in> set (config_trees db cid).
       \<forall>t \<in> set (transfo_tbl db).
        t_id t \<in> set (tt_transfos tt1) \<and> t_id t \<in> set (tt_transfos tt2)
        \<and> tt_sensor_connections tt1 \<noteq> tt_sensor_connections tt2 \<longrightarrow>
          edge_of t True \<in> set (preview_edges db cid)
          \<and> edge_of t False \<in> set (preview_edges db cid)
          \<and> (distinct (map t_id (transfo_tbl db)) \<longrightarrow>
               count_list (map e_id (preview_edges db cid)) (t_id t) = 2))"
proof (intro conjI ballI impI)
  fix e assume "e \<in> set (preview_edges db cid)"
  then show "\<exists>tt \<in> set (config_trees db cid). \<exists>t \<in> set (transfo_tbl db).
        t_id t \<in> set (tt_transfos tt) \<and> e = edge_of t (tt_sensor_connections tt)"
    unfolding in_preview_edges_iff .
next
  fix tt t
  assume "tt \<in> set (config_trees db cid)" "t \<in> set (transfo_tbl db)"
    "t_id t \<in> set (tt_transfos tt)"
  then show "edge_of t (tt_sensor_connections tt) \<in> set (preview_edges db cid)"
    by (rule edge_of_stmt_in_body(1))
next
  fix tt t
  assume "tt \<in> set (config_trees db cid)" "t \<in> set (transfo_tbl db)"
    "t_id t \<in> set (tt_transfos tt)"
  then show "EdgeStmt (str (t_source t)) (str (t_target t)) (str (t_id t))
               (if tt_sensor_connections tt then [(''color'', ''blue'')] else [])
             \<in> set (body (preview_dot db cid))"
    by (rule edge_of_stmt_in_body(2))
next
  fix tt1 tt2 t
  assume a: "tt1 \<in> set (config_trees db cid)" "tt2 \<in> set (config_trees db cid)"
    "t \<in> set (transfo_tbl db)"
    and b: "t_id t \<in> set (tt_transfos tt1) \<and> t_id t \<in> set (tt_transfos tt2)
        \<and> tt_sensor_connections tt1 \<noteq> tt_sensor_connections tt2"
  from both_rows [of t db tt1 cid tt2] a b
  show "edge_of t True \<in> set (preview_edges db cid)" by blast
next
  fix tt1 tt2 t
  assume a: "tt1 \<in> set (config_trees db cid)" "tt2 \<in> set (config_trees db cid)"
    "t \<in> set (transfo_tbl db)"
    and b: "t_id t \<in> set (tt_transfos tt1) \<and> t_id t \<in> set (tt_transfos tt2)
        \<and> tt_sensor_connections tt1 \<noteq> tt_sensor_connections tt2"
  from both_rows [of t db tt1 cid tt2] a b
  show "edge_of t False \<in> set (preview_edges db cid)" by blast
next
  fix tt1 tt2 t
  assume a: "tt1 \<in> set (config_trees db cid)" "tt2 \<in> set (config_trees db cid)"
    "t \<in> set (transfo_tbl db)"
    and b: "t_id t \<in> set (tt_transfos tt1) \<and> t_id t \<in> set (tt_transfos tt2)
        \<and> tt_sensor_connections tt1 \<noteq> tt_sensor_connections tt2"
    and u: "distinct (map t_id (transfo_tbl db))"
  from count_two_flags [OF u a(3) a(1) _ a(2)] b
  show "count_list (map e_id (preview_edges db cid)) (t_id t) = 2" by blast
qed

theorem sc_is_read_from_the_tree_witness:
  "edge_of (tr 10 100 101) True \<in> set (preview_edges store_two_flags 1)
   \<and> edge_of (tr 10 100 101) False \<in> set (preview_edges store_two_flags 1)
   \<and> count_list (map e_id (preview_edges store_two_flags 1)) 10 = 2
   \<and> EdgeStmt ''100'' ''101'' ''10'' [] \<in> set (body (preview_dot store_two_flags 1))
   \<and> EdgeStmt ''100'' ''101'' ''10'' [(''color'', ''blue'')]
        \<in> set (body (preview_dot store_two_flags 1))"
proof -
  have tb: "transfo_tbl store_two_flags = [tr 10 100 101]"
    by (simp add: store_two_flags_def)
  have u: "distinct (map t_id (transfo_tbl store_two_flags))"
    by (simp add: tb)
  note r = sc_is_read_from_the_tree [of store_two_flags 1]
  from r have 2: "\<forall>tt \<in> set (config_trees store_two_flags 1). \<forall>t \<in> set (transfo_tbl store_two_flags).
        t_id t \<in> set (tt_transfos tt) \<longrightarrow>
          edge_of t (tt_sensor_connections tt) \<in> set (preview_edges store_two_flags 1)
          \<and> EdgeStmt (str (t_source t)) (str (t_target t)) (str (t_id t))
               (if tt_sensor_connections tt then [(''color'', ''blue'')] else [])
             \<in> set (body (preview_dot store_two_flags 1))" by blast
  from r have 3: "\<forall>tt1 \<in> set (config_trees store_two_flags 1).
       \<forall>tt2 \<in> set (config_trees store_two_flags 1).
       \<forall>t \<in> set (transfo_tbl store_two_flags).
        t_id t \<in> set (tt_transfos tt1) \<and> t_id t \<in> set (tt_transfos tt2)
        \<and> tt_sensor_connections tt1 \<noteq> tt_sensor_connections tt2 \<longrightarrow>
          edge_of t True \<in> set (preview_edges store_two_flags 1)
          \<and> edge_of t False \<in> set (preview_edges store_two_flags 1)
          \<and> (distinct (map t_id (transfo_tbl store_two_flags)) \<longrightarrow>
               count_list (map e_id (preview_edges store_two_flags 1)) (t_id t) = 2)" by blast
  from 2 have a: "EdgeStmt ''100'' ''101'' ''10'' [] \<in> set (body (preview_dot store_two_flags 1))
     \<and> EdgeStmt ''100'' ''101'' ''10'' [(''color'', ''blue'')]
        \<in> set (body (preview_dot store_two_flags 1))"
    unfolding trees_store_two_flags tb by (simp add: tree_def tr_def str_samples)
  from 3 u have b: "edge_of (tr 10 100 101) True \<in> set (preview_edges store_two_flags 1)
   \<and> edge_of (tr 10 100 101) False \<in> set (preview_edges store_two_flags 1)
   \<and> count_list (map e_id (preview_edges store_two_flags 1)) 10 = 2"
    unfolding trees_store_two_flags tb by (simp add: tree_def tr_def)
  from a b show ?thesis by blast
qed

section \<open>Scenario A\<close>

text \<open>
  Claim C5, as the code has it. In the store of scenario A, whatever the
  \<^verbatim>\<open>sensor_connections\<close> of the two trees, configuration 7 gives the node ids
  100, 101, 102, 103 and the edge ids 10, 11, 12. The edges in the sensor-connection
  color are those of the flagged trees: 10 and 11 when tree 1 is flagged, 11 and 12
  when tree 2 is.
\<close>

theorem scenario_A_assembled:
  "n_id ` set (preview_nodes (scenario_A sc1 sc2) 7) = {100, 101, 102, 103}
   \<and> e_id ` set (preview_edges (scenario_A sc1 sc2) 7) = {10, 11, 12}
   \<and> e_id ` set (filter e_sc (preview_edges (scenario_A sc1 sc2) 7))
       = (if sc1 then {10, 11} else {}) \<union> (if sc2 then {11, 12} else {})"
proof -
  have a: "n_id ` set (preview_nodes (scenario_A sc1 sc2) 7) = {100, 101, 102, 103}"
    by (simp add: nodes_scenario_A)
  have b: "e_id ` set (preview_edges (scenario_A sc1 sc2) 7) = {10, 11, 12}"
    unfolding set_edges_scenario_A by (auto simp: edge_of_def tr_def)
  have c: "e_id ` set (filter e_sc (preview_edges (scenario_A sc1 sc2) 7))
       = (if sc1 then {10, 11} else {}) \<union> (if sc2 then {11, 12} else {})"
    by (cases sc1; cases sc2) (auto simp: edges_scenario_A edge_of_def tr_def)
  from a b c show ?thesis by blast
qed

theorem scenario_A_assembled_witness:
  "n_id ` set (preview_nodes (scenario_A False True) 7) = {100, 101, 102, 103}
   \<and> e_id ` set (preview_edges (scenario_A False True) 7) = {10, 11, 12}
   \<and> e_id ` set (filter e_sc (preview_edges (scenario_A False True) 7)) = {11, 12}
   \<and> preview_edges (scenario_A False True) 7 =
       [\<lparr>e_id = 10, e_source = 100, e_target = 101, e_transfo_type = 1, e_sc = False\<rparr>,
        \<lparr>e_id = 11, e_source = 101, e_target = 102, e_transfo_type = 1, e_sc = False\<rparr>,
        \<lparr>e_id = 11, e_source = 101, e_target = 102, e_transfo_type = 1, e_sc = True\<rparr>,
        \<lparr>e_id = 12, e_source = 102, e_target = 103, e_transfo_type = 1, e_sc = True\<rparr>]"
  using scenario_A_assembled [of False True]
  by (simp add: edges_scenario_A edge_of_def tr_def)

text \<open>
  Claim C5 as stated asks that edge 11 and no other be drawn in the sensor-connection
  color. Edge 11 shares each of its trees with another edge, so no value of the two
  flags gives that.
\<close>

theorem scenario_A_blue_is_never_only_11:
  "e_id ` set (filter e_sc (preview_edges (scenario_A False False) 7)) \<noteq> {11}
   \<and> e_id ` set (filter e_sc (preview_edges (scenario_A False True) 7)) \<noteq> {11}
   \<and> e_id ` set (filter e_sc (preview_edges (scenario_A True False) 7)) \<noteq> {11}
   \<and> e_id ` set (filter e_sc (preview_edges (scenario_A True True) 7)) \<noteq> {11}"
  by (auto simp: edges_scenario_A edge_of_def tr_def)

section \<open>The visual policy\<close>

text \<open>
  Claim C3. The body of the graph description is one node statement for each assembled
  node, in their order, then one edge statement for each assembled edge. A node
  statement is named by the id as text and labelled with the name, a newline, and the
  id in parentheses; it has the color red when the node's root flag is true and no
  color attribute otherwise. An edge statement goes from the source id to the target
  id as text and is labelled with the transformation id as text; it has the color blue
  when the row's \<^verbatim>\<open>sc\<close> is true and no color attribute otherwise.
\<close>

theorem graph_description_visual_policy:
  "body (preview_dot db cid) =
     map (\<lambda>node. NodeStmt (str (n_id node))
                  (n_name node @ [CHR 0x0A] @ ''('' @ str (n_id node) @ '')'')
                  (if n_root node then [(''color'', ''red'')] else []))
         (preview_nodes db cid)
     @ map (\<lambda>edge. EdgeStmt (str (e_source edge)) (str (e_target edge)) (str (e_id edge))
                  (if e_sc edge then [(''color'', ''blue'')] else []))
         (preview_edges db cid)"
proof -
  let ?node = "\<lambda>node. NodeStmt (str (n_id node))
                  (n_name node @ [CHR 0x0A] @ ''('' @ str (n_id node) @ '')'')
                  (if n_root node then [(''color'', ''red'')] else [])"
  let ?edge = "\<lambda>edge. EdgeStmt (str (e_source edge)) (str (e_target edge)) (str (e_id edge))
                  (if e_sc edge then [(''color'', ''blue'')] else [])"
  have n: "body (add_nodes nodes dot) = body dot @ map ?node nodes" for nodes dot
    by (simp add: add_nodes_eq node_label_def)
  have e: "body (add_edges edges dot) = body dot @ map ?edge edges" for edges dot
    by (simp add: add_edges_eq)
  have "body (preview_dot db cid) =
      body (add_edges (preview_edges db cid)
              (add_nodes (preview_nodes db cid) (Digraph ''Transformations'')))"
    by (simp add: preview_dot_def Let_def)
  also have "\<dots> = body (Digraph ''Transformations'') @ map ?node (preview_nodes db cid)
      @ map ?edge (preview_edges db cid)"
    by (simp only: e n append_assoc)
  also have "body (Digraph ''Transformations'') = []"
    by (simp add: Digraph_def)
  finally show ?thesis by simp
qed


theorem graph_description_visual_policy_witness:
  "body (preview_dot store_two_flags 1) =
     [NodeStmt ''100'' (''base'' @ [CHR 0x0A] @ ''(100)'') [(''color'', ''red'')],
      NodeStmt ''101'' (''imu'' @ [CHR 0x0A] @ ''(101)'') [],
      EdgeStmt ''100'' ''101'' ''10'' [],
      EdgeStmt ''100'' ''101'' ''10'' [(''color'', ''blue'')]]"
  using graph_description_visual_policy [of store_two_flags 1]
  by (simp add: nodes_store_two_flags edges_store_two_flags edge_of_def tr_def str_samples)


section \<open>Nothing to draw\<close>

text \<open>
  Claim C4. When no stored configuration has the given id, the first query returns no
  edge and the second no node, and the graph description handed to the backend is the
  empty graph. The handler raises nothing of its own: it never aborts.
\<close>

theorem absent_config_is_empty_graph:
  assumes "cid \<notin> pf_id ` set (platform_config_tbl db)"
  shows "preview_edges db cid = [] \<and> preview_nodes db cid = []
    \<and> preview_dot db cid =
        \<lparr>comment = ''Transformations'', body = [], graph_attr = [(''overlap'', ''scalexy'')],
         engine = ''dot''\<rparr>
    \<and> (\<forall>c m. PlatformConfigPreview_get db pipe cid \<noteq> Inl (Abort c m))"
proof -
  have e: "preview_edges db cid = []"
    unfolding preview_edges_empty_iff using config_trees_absent [OF assms] by simp
  show ?thesis
    using e preview_nodes_no_edges [OF e] preview_dot_no_edges [OF e] get_never_aborts
    by blast
qed

theorem absent_config_is_empty_graph_witness:
  "9 \<notin> pf_id ` set (platform_config_tbl store_empties)
   \<and> preview_edges store_empties 9 = [] \<and> preview_nodes store_empties 9 = []
   \<and> body (preview_dot store_empties 9) = []
   \<and> PlatformConfigPreview_get store_empties sample_pipe 9 =
       Inr \<lparr>data = ''png of 0 statements'', status = 200, content_type = ''image/png'',
            mimetype = ''image/png''\<rparr>"
proof -
  have h: "9 \<notin> pf_id ` set (platform_config_tbl store_empties)"
    by (simp add: store_empties_def cfg_def)
  note r = absent_config_is_empty_graph [OF h, of sample_pipe]
  have "PlatformConfigPreview_get store_empties sample_pipe 9 =
       Inr \<lparr>data = ''png of 0 statements'', status = 200, content_type = ''image/png'',
            mimetype = ''image/png''\<rparr>"
    using r by (simp add: get_cases sample_pipe_def str_def str_nat.simps digit_char_def)
  with h r show ?thesis by simp
qed

text \<open>
  Claim C9. When no transformation id of a tree of the configuration is the id of a
  stored transformation (the configuration is not stored, lists no stored tree, or its
  trees hold no stored transformation), the handler still calls the backend, on the
  empty graph and for the format \<^verbatim>\<open>png\<close>. The bytes the backend gives are returned
  with status 200 and content type \<^verbatim>\<open>image/png\<close>; a failure of the backend is let
  through; the handler never aborts with a not-found status.
\<close>

theorem empty_preview_is_rendered:
  assumes "\<forall>tt \<in> set (config_trees db cid). \<forall>tid \<in> set (tt_transfos tt).
             tid \<notin> t_id ` set (transfo_tbl db)"
  shows "PlatformConfigPreview_get db pipe cid =
     (case pipe \<lparr>comment = ''Transformations'', body = [],
                 graph_attr = [(''overlap'', ''scalexy'')], engine = ''dot''\<rparr> ''png'' of
        None \<Rightarrow> Inl BackendFault
      | Some d \<Rightarrow>
          Inr \<lparr>data = d, status = 200, content_type = ''image/png'', mimetype = ''image/png''\<rparr>)
    \<and> (\<forall>c m. PlatformConfigPreview_get db pipe cid \<noteq> Inl (Abort c m))"
proof -
  have e: "preview_edges db cid = []"
    unfolding preview_edges_empty_iff using assms .
  have a: "PlatformConfigPreview_get db pipe cid =
     (case pipe \<lparr>comment = ''Transformations'', body = [],
                 graph_attr = [(''overlap'', ''scalexy'')], engine = ''dot''\<rparr> ''png'' of
        None \<Rightarrow> Inl BackendFault
      | Some d \<Rightarrow>
          Inr \<lparr>data = d, status = 200, content_type = ''image/png'', mimetype = ''image/png''\<rparr>)"
    by (simp add: get_cases preview_dot_no_edges [OF e])
  have b: "\<forall>c m. PlatformConfigPreview_get db pipe cid \<noteq> Inl (Abort c m)"
    by (simp add: get_never_aborts)
  from a b show ?thesis by (rule conjI)
qed

theorem empty_preview_is_rendered_witness:
  "PlatformConfigPreview_get store_empties sample_pipe 1 =
       Inr \<lparr>data = ''png of 0 statements'', status = 200, content_type = ''image/png'',
            mimetype = ''image/png''\<rparr>
   \<and> PlatformConfigPreview_get store_empties sample_pipe 2 =
       Inr \<lparr>data = ''png of 0 statements'', status = 200, content_type = ''image/png'',
            mimetype = ''image/png''\<rparr>
   \<and> PlatformConfigPreview_get store_empties sample_pipe 3 =
       Inr \<lparr>data = ''png of 0 statements'', status = 200, content_type = ''image/png'',
            mimetype = ''image/png''\<rparr>
   \<and> PlatformConfigPreview_get store_empties sample_pipe 9 =
       Inr \<lparr>data = ''png of 0 statements'', status = 200, content_type = ''image/png'',
            mimetype = ''image/png''\<rparr>
   \<and> PlatformConfigPreview_get store_empties failing_pipe 9 = Inl BackendFault"
proof -
  have s: "sample_pipe \<lparr>comment = ''Transformations'', body = [],
                 graph_attr = [(''overlap'', ''scalexy'')], engine = ''dot''\<rparr> ''png''
            = Some ''png of 0 statements''"
    by (simp add: sample_pipe_def str_def str_nat.simps digit_char_def)
  have "PlatformConfigPreview_get store_empties sample_pipe 1 =
       Inr \<lparr>data = ''png of 0 statements'', status = 200, content_type = ''image/png'',
            mimetype = ''image/png''\<rparr>"
    using empty_preview_is_rendered [of store_empties 1 sample_pipe]
    by (simp add: trees_store_empties s)
  moreover have "PlatformConfigPreview_get store_empties sample_pipe 2 =
       Inr \<lparr>data = ''png of 0 statements'', status = 200, content_type = ''image/png'',
            mimetype = ''image/png''\<rparr>"
    using empty_preview_is_rendered [of store_empties 2 sample_pipe]
    by (simp add: trees_store_empties s)
  moreover have "PlatformConfigPreview_get store_empties sample_pipe 3 =
       Inr \<lparr>data = ''png of 0 statements'', status = 200, content_type = ''image/png'',
            mimetype = ''image/png''\<rparr>"
    using empty_preview_is_rendered [of store_empties 3 sample_pipe]
    by (simp add: trees_store_empties s tree_def)
  moreover have "PlatformConfigPreview_get store_empties sample_pipe 9 =
       Inr \<lparr>data = ''png of 0 statements'', status = 200, content_type = ''image/png'',
            mimetype = ''image/png''\<rparr>"
    using empty_preview_is_rendered [of store_empties 9 sample_pipe]
    by (simp add: trees_store_empties s)
  moreover have "PlatformConfigPreview_get store_empties failing_pipe 9 = Inl BackendFault"
    using empty_preview_is_rendered [of store_empties 9 failing_pipe]
    by (simp add: trees_store_empties failing_pipe_def)
  ultimately show ?thesis by blast
qed

section \<open>Independence of the order of the rows\<close>

text \<open>
  Claim C7. The store being unchanged, two runs can only differ in the order in which
  the scans meet the rows. For every configuration id, two stores whose tables hold
  the same rows, in whatever order, give the same set of edge rows and the same set of
  node rows.
\<close>

theorem assembly_independent_of_row_order:
  assumes "set (platform_config_tbl db) = set (platform_config_tbl db')"
    and "set (transfo_tree_tbl db) = set (transfo_tree_tbl db')"
    and "set (transfo_tbl db) = set (transfo_tbl db')"
    and "set (referential_tbl db) = set (referential_tbl db')"
  shows "set (preview_edges db cid) = set (preview_edges db' cid)
    \<and> set (preview_nodes db cid) = set (preview_nodes db' cid)"
proof -
  have t: "set (config_trees db cid) = set (config_trees db' cid)"
    using assms(1,2) by (rule set_config_trees_cong)
  have e: "set (preview_edges db cid) = set (preview_edges db' cid)"
  proof (rule set_eqI)
    fix x
    show "x \<in> set (preview_edges db cid) \<longleftrightarrow> x \<in> set (preview_edges db' cid)"
      unfolding in_preview_edges_iff t assms(3) ..
  qed
  have u: "preview_urefs db cid = preview_urefs db' cid"
    unfolding preview_urefs_eq e ..
  have n: "set (preview_nodes db cid) = set (preview_nodes db' cid)"
    unfolding preview_nodes_def set_query_nodes u assms(4) ..
  from e n show ?thesis by (rule conjI)
qed


theorem assembly_independent_of_row_order_witness:
  "set (platform_config_tbl (scenario_A False True))
     = set (platform_config_tbl (rev_tables (scenario_A False True)))
   \<and> set (transfo_tree_tbl (scenario_A False True))
     = set (transfo_tree_tbl (rev_tables (scenario_A False True)))
   \<and> set (transfo_tbl (scenario_A False True))
     = set (transfo_tbl (rev_tables (scenario_A False True)))
   \<and> set (referential_tbl (scenario_A False True))
     = set (referential_tbl (rev_tables (scenario_A False True)))
   \<and> preview_edges (scenario_A False True) 7 \<noteq> preview_edges (rev_tables (scenario_A False True)) 7
   \<and> set (preview_edges (scenario_A False True) 7)
     = set (preview_edges (rev_tables (scenario_A False True)) 7)
   \<and> set (preview_nodes (scenario_A False True) 7)
     = set (preview_nodes (rev_tables (scenario_A False True)) 7)"
proof -
  have h1: "set (platform_config_tbl (scenario_A False True))
     = set (platform_config_tbl (rev_tables (scenario_A False True)))"
    by (simp add: rev_tables_def)
  have h2: "set (transfo_tree_tbl (scenario_A False True))
     = set (transfo_tree_tbl (rev_tables (scenario_A False True)))"
    by (simp add: rev_tables_def)
  have h3: "set (transfo_tbl (scenario_A False True))
     = set (transfo_tbl (rev_tables (scenario_A False True)))"
    by (simp add: rev_tables_def)
  have h4: "set (referential_tbl (scenario_A False True))
     = set (referential_tbl (rev_tables (scenario_A False True)))"
    by (simp add: rev_tables_def)
  have d: "preview_edges (scenario_A False True) 7
      \<noteq> preview_edges (rev_tables (scenario_A False True)) 7"
    by (simp add: edges_scenario_A edges_rev_scenario_A edge_of_def tr_def)
  from assembly_independent_of_row_order [OF h1 h2 h3 h4, of 7] h1 h2 h3 h4 d
  show ?thesis by blast
qed

section \<open>One platform: 410 exactly when no row matches\<close>

lemma rowcount_zero_iff:
  "length (filter (\<lambda>p. p_id p = pid) ps) = 0 \<longleftrightarrow> pid \<notin> p_id ` set ps"
  by (induction ps) auto

lemma select_empty_iff:
  "filter (\<lambda>p. p_id p = pid) ps = [] \<longleftrightarrow> pid \<notin> p_id ` set ps"
  by (induction ps) auto

text \<open>
  Claim C10. \<^verbatim>\<open>OnePlatform.get\<close> and \<^verbatim>\<open>OnePlatform.delete\<close> abort with 410 exactly
  when the id is the id of no stored platform. Otherwise GET returns the rows with
  that id, which are stored rows and at least one, and DELETE returns the empty body
  with status 204 and leaves exactly the rows with another id.
\<close>

theorem one_platform_410_iff_absent:
  "(OnePlatform_get db pid = Inl (Abort 410 ''Platform not found'')
      \<longleftrightarrow> pid \<notin> p_id ` set (platform_tbl db))
   \<and> (snd (OnePlatform_delete db pid) = Inl (Abort 410 ''Platform not found'')
      \<longleftrightarrow> pid \<notin> p_id ` set (platform_tbl db))
   \<and> (pid \<in> p_id ` set (platform_tbl db) \<longrightarrow>
        (\<exists>res. OnePlatform_get db pid = Inr res \<and> res \<noteq> []
           \<and> set res = {p \<in> set (platform_tbl db). p_id p = pid})
        \<and> snd (OnePlatform_delete db pid) = Inr ([], 204)
        \<and> set (platform_tbl (fst (OnePlatform_delete db pid)))
            = {p \<in> set (platform_tbl db). p_id p \<noteq> pid})"
proof -
  have g: "OnePlatform_get db pid = Inl (Abort 410 ''Platform not found'')
      \<longleftrightarrow> pid \<notin> p_id ` set (platform_tbl db)"
    using select_empty_iff [of pid "platform_tbl db"]
    by (simp add: OnePlatform_get_def select_platform_def Let_def)
  have d: "snd (OnePlatform_delete db pid) = Inl (Abort 410 ''Platform not found'')
      \<longleftrightarrow> pid \<notin> p_id ` set (platform_tbl db)"
    using rowcount_zero_iff [of pid "platform_tbl db"]
    by (simp add: OnePlatform_delete_def delete_platform_def)
  have p: "pid \<in> p_id ` set (platform_tbl db) \<longrightarrow>
        (\<exists>res. OnePlatform_get db pid = Inr res \<and> res \<noteq> []
           \<and> set res = {p \<in> set (platform_tbl db). p_id p = pid})
        \<and> snd (OnePlatform_delete db pid) = Inr ([], 204)
        \<and> set (platform_tbl (fst (OnePlatform_delete db pid)))
            = {p \<in> set (platform_tbl db). p_id p \<noteq> pid}"
  proof
    assume h: "pid \<in> p_id ` set (platform_tbl db)"
    have ne: "filter (\<lambda>p. p_id p = pid) (platform_tbl db) \<noteq> []"
      using h select_empty_iff [of pid "platform_tbl db"] by simp
    have a: "\<exists>res. OnePlatform_get db pid = Inr res \<and> res \<noteq> []
           \<and> set res = {p \<in> set (platform_tbl db). p_id p = pid}"
      using ne by (simp add: OnePlatform_get_def select_platform_def Let_def)
    have b: "snd (OnePlatform_delete db pid) = Inr ([], 204)"
      using ne by (simp add: OnePlatform_delete_def delete_platform_def)
    have c: "set (platform_tbl (fst (OnePlatform_delete db pid)))
            = {p \<in> set (platform_tbl db). p_id p \<noteq> pid}"
      by (simp add: OnePlatform_delete_def delete_platform_def)
    from a b c show "(\<exists>res. OnePlatform_get db pid = Inr res \<and> res \<noteq> []
           \<and> set res = {p \<in> set (platform_tbl db). p_id p = pid})
        \<and> snd (OnePlatform_delete db pid) = Inr ([], 204)
        \<and> set (platform_tbl (fst (OnePlatform_delete db pid)))
            = {p \<in> set (platform_tbl db). p_id p \<noteq> pid}"
      by blast
  qed
  from g d p show ?thesis by blast
qed

theorem one_platform_410_iff_absent_witness:
  "OnePlatform_get store_platforms 3 = Inl (Abort 410 ''Platform not found'')
   \<and> snd (OnePlatform_delete store_platforms 3) = Inl (Abort 410 ''Platform not found'')
   \<and> OnePlatform_get store_platforms 2 = Inr [pfm 2]
   \<and> snd (OnePlatform_delete store_platforms 2) = Inr ([], 204)
   \<and> platform_tbl (fst (OnePlatform_delete store_platforms 2)) = [pfm 1]"
proof -
  have a: "(3::int) \<notin> p_id ` set (platform_tbl store_platforms)"
    by (simp add: store_platforms_def pfm_def)
  have b: "(2::int) \<in> p_id ` set (platform_tbl store_platforms)"
    by (simp add: store_platforms_def pfm_def)
  have "OnePlatform_get store_platforms 3 = Inl (Abort 410 ''Platform not found'')"
    using one_platform_410_iff_absent [of store_platforms 3] a by blast
  moreover have "snd (OnePlatform_delete store_platforms 3) = Inl (Abort 410 ''Platform not found'')"
    using one_platform_410_iff_absent [of store_platforms 3] a by blast
  moreover have "snd (OnePlatform_delete store_platforms 2) = Inr ([], 204)"
    using one_platform_410_iff_absent [of store_platforms 2] b by blast
  moreover have "OnePlatform_get store_platforms 2 = Inr [pfm 2]"
    by (simp add: OnePlatform_get_def select_platform_def store_platforms_def pfm_def)
  moreover have "platform_tbl (fst (OnePlatform_delete store_platforms 2)) = [pfm 1]"
    by (simp add: OnePlatform_delete_def delete_platform_def store_platforms_def pfm_def)
  ultimately show ?thesis by blast
qed

end
